theory Spec2Isabelle
  imports Complex_Main
begin

section \<open>Binary64 arithmetic\<close>

text \<open>
  The model follows \<^verbatim>\<open>src/Ledger.py\<close>. A Python float is a binary64 value: a finite
  value is written \<open>Fin x\<close> with \<open>x\<close> the real number it denotes, and there are the two
  infinities and the not-a-number value. The two zeros are identified, as Python's
  \<^verbatim>\<open>==\<close> does; no operation of the program tells them apart. Every arithmetic
  result is rounded to the nearest binary64 value, ties to the even significand, and
  overflows to an infinity.
\<close>

datatype float64 = Fin real | PInf | NInf | NaN

datatype error = KeyError | PeerError | OverflowError | ValueError

definition pow2 :: "int \<Rightarrow> real" where
  "pow2 e = (if 0 \<le> e then 2 ^ nat e else 1 / 2 ^ nat (- e))"

definition round_half_even :: "real \<Rightarrow> int" where
  "round_half_even q =
     (let f = \<lfloor>q\<rfloor>; d = q - of_int f
      in if d < 1 / 2 then f else if 1 / 2 < d then f + 1
         else if even f then f else f + 1)"

text \<open>The exponent of the binade of \<open>x\<close>: the greatest \<open>e\<close> between \<open>-1021\<close> and \<open>1023\<close>
  with \<open>2\<^sup>e \<le> \<bar>x\<bar>\<close>, and \<open>-1022\<close> when there is none (zero and the subnormal range
  share the spacing of the lowest normal binade).\<close>

fun exp_search :: "nat \<Rightarrow> real \<Rightarrow> int" where
  "exp_search 0 x = - 1022"
| "exp_search (Suc n) x =
     (if pow2 (int n - 1021) \<le> \<bar>x\<bar> then int n - 1021 else exp_search n x)"

definition float_exponent :: "real \<Rightarrow> int" where
  "float_exponent x = exp_search 2045 x"

text \<open>Rounding of a real to binary64: the spacing in the binade of exponent \<open>e\<close> is
  \<open>2\<^bsup>e - 52\<^esup>\<close>; a rounded magnitude of \<open>2\<^sup>1\<^sup>0\<^sup>2\<^sup>4\<close> or more is an overflow.\<close>

definition round64 :: "real \<Rightarrow> float64" where
  "round64 x =
     (let e = float_exponent x;
          u = pow2 (e - 52);
          r = of_int (round_half_even (x / u)) * u
      in if pow2 1024 \<le> \<bar>r\<bar> then (if 0 < x then PInf else NInf) else Fin r)"

fun fadd :: "float64 \<Rightarrow> float64 \<Rightarrow> float64" where
  "fadd (Fin a) (Fin b) = round64 (a + b)"
| "fadd NaN y = NaN"
| "fadd x NaN = NaN"
| "fadd PInf NInf = NaN"
| "fadd NInf PInf = NaN"
| "fadd PInf y = PInf"
| "fadd NInf y = NInf"
| "fadd x PInf = PInf"
| "fadd x NInf = NInf"

fun fneg :: "float64 \<Rightarrow> float64" where
  "fneg (Fin a) = Fin (- a)"
| "fneg PInf = NInf"
| "fneg NInf = PInf"
| "fneg NaN = NaN"

definition fsub :: "float64 \<Rightarrow> float64 \<Rightarrow> float64" where
  "fsub x y = fadd x (fneg y)"

fun fabs :: "float64 \<Rightarrow> float64" where
  "fabs (Fin a) = Fin \<bar>a\<bar>"
| "fabs PInf = PInf"
| "fabs NInf = PInf"
| "fabs NaN = NaN"

text \<open>Product and quotient of a float with a positive integer literal of the program
  (\<open>100\<close>, \<open>2\<close>, \<open>50\<close>; each is exact as a float).\<close>

fun fmul :: "float64 \<Rightarrow> real \<Rightarrow> float64" where
  "fmul (Fin a) d = round64 (a * d)"
| "fmul x d = x"

fun fdiv :: "float64 \<Rightarrow> real \<Rightarrow> float64" where
  "fdiv (Fin a) d = round64 (a / d)"
| "fdiv x d = x"

text \<open>The comparison \<^verbatim>\<open><\<close>: false whenever an operand is not a number.\<close>

fun flt :: "float64 \<Rightarrow> float64 \<Rightarrow> bool" where
  "flt (Fin a) (Fin b) = (a < b)"
| "flt NaN y = False"
| "flt x NaN = False"
| "flt x NInf = False"
| "flt PInf y = False"
| "flt NInf y = True"
| "flt x PInf = True"

text \<open>Python's \<^verbatim>\<open>int(x)\<close> on a float truncates towards zero; it raises
  \<^verbatim>\<open>OverflowError\<close> on an infinity and \<^verbatim>\<open>ValueError\<close> on not-a-number.\<close>

fun py_int :: "float64 \<Rightarrow> error + int" where
  "py_int (Fin x) = Inr (if 0 \<le> x then \<lfloor>x\<rfloor> else \<lceil>x\<rceil>)"
| "py_int PInf = Inl OverflowError"
| "py_int NInf = Inl OverflowError"
| "py_int NaN = Inl ValueError"

text \<open>The conversion of an integer operand in mixed arithmetic: correctly rounded,
  \<^verbatim>\<open>OverflowError\<close> when the integer is too large for a float.\<close>

definition float_of_int :: "int \<Rightarrow> error + float64" where
  "float_of_int n =
     (case round64 (of_int n) of Fin r \<Rightarrow> Inr (Fin r) | _ \<Rightarrow> Inl OverflowError)"

section \<open>Data model of the ledger\<close>

text \<open>Hashes and agent identifiers are strings; a scan is the opaque blob of the
  profile codec and is only ever passed on.\<close>

type_synonym scan_blob = string

text \<open>
  \<^verbatim>\<open>BlockRecord\<close>: the attributes the ledger reads. \<^verbatim>\<open>prev_hash\<close> is \<^verbatim>\<open>None\<close> for the
  first block of an agent. \<^verbatim>\<open>hash\<close> is a stored attribute: the ledger and the
  consensus node only read it.
\<close>

record BlockRecord =
  agent_id :: string
  scan :: scan_blob
  timestamp :: float64
  prev_hash :: "string option"
  dependencies :: "string list"
  metadata :: "(string \<times> string) list"
  hash :: string

text \<open>
  Modelled from the spec: the class \<^verbatim>\<open>BlockRecord\<close> itself is missing from the sources.
  Its constructor takes the six content fields and sets \<^verbatim>\<open>hash\<close> to a deterministic
  identifier computed over all of them. The hash function is the parameter \<open>H\<close>.
\<close>

type_synonym hash_fn =
  "string \<Rightarrow> scan_blob \<Rightarrow> float64 \<Rightarrow> string option \<Rightarrow> string list
     \<Rightarrow> (string \<times> string) list \<Rightarrow> string"

definition content_hash :: "hash_fn \<Rightarrow> BlockRecord \<Rightarrow> string" where
  "content_hash H b =
     H (agent_id b) (scan b) (timestamp b) (prev_hash b) (dependencies b) (metadata b)"

definition new_BlockRecord ::
  "hash_fn \<Rightarrow> string \<Rightarrow> scan_blob \<Rightarrow> float64 \<Rightarrow> string option \<Rightarrow> string list
     \<Rightarrow> (string \<times> string) list \<Rightarrow> BlockRecord" where
  "new_BlockRecord H a s t p d m =
     \<lparr>agent_id = a, scan = s, timestamp = t, prev_hash = p, dependencies = d,
      metadata = m, hash = H a s t p d m\<rparr>"

text \<open>The profile handed to the codec, and the snapshot dictionary it is built from.
  A key that may be absent from a dictionary is an \<open>option\<close> field.\<close>

record relationships_dict =
  rel_dependencies :: "string list option"
  rel_agents :: "string list option"

record profile =
  p_id :: string
  Wealth :: int
  Hunger :: int
  Status :: int
  relationships :: "relationships_dict option"

record snapshot =
  s_skills :: "string list option"
  s_average_accuracy :: "float64 option"
  s_learning_iterations :: "int option"
  s_dependencies :: "string list option"
  s_related_agents :: "string list option"

text \<open>The state dictionary that \<^verbatim>\<open>_convert_ranges_to_state\<close> builds.\<close>

record agent_state =
  r_agent_id :: string
  r_skills :: "string list"
  r_average_accuracy :: float64
  r_learning_iterations :: int
  r_needs_training :: bool
  r_timestamp :: float64
  r_dependencies :: "string list option"

text \<open>
  The codec \<^verbatim>\<open>XLSP\<close> is an external collaborator: its two operations are fields of
  a record, so that the ledger's \<^verbatim>\<open>self.xlsp\<close> is a value like the rest. The decoded
  ranges are a dictionary from metric name to an interval of floats, kept as an
  association list so that emptiness is decidable.
\<close>

type_synonym ranges = "(string \<times> (float64 \<times> float64)) list"

record XLSP =
  encode :: "profile \<Rightarrow> float64 \<Rightarrow> scan_blob"
  decode :: "scan_blob \<Rightarrow> float64 \<Rightarrow> ranges"

text \<open>
  \<^verbatim>\<open>XenoChain\<close>. \<^verbatim>\<open>agent_blocks\<close> is a \<^verbatim>\<open>defaultdict(list)\<close>: a total function whose
  value at an unknown agent is the empty list. \<^verbatim>\<open>hash_index\<close> is a plain dictionary.
\<close>

record XenoChain =
  blocks :: "BlockRecord list"
  agent_blocks :: "string \<Rightarrow> BlockRecord list"
  hash_index :: "string \<rightharpoonup> BlockRecord"
  xlsp :: XLSP

definition new_XenoChain :: "XLSP \<Rightarrow> XenoChain" where
  "new_XenoChain codec =
     \<lparr>blocks = [], agent_blocks = (\<lambda>_. []), hash_index = Map.empty, xlsp = codec\<rparr>"

text \<open>
  \<^verbatim>\<open>ConsensusNode\<close>: the node's own mutable state. The peer objects of \<^verbatim>\<open>self.peers\<close>
  are other objects; the operations that touch them take them as an explicit list and
  return them updated.
\<close>

record ConsensusNode =
  node_id :: string
  chain :: XenoChain
  pending_blocks :: "BlockRecord list"

definition new_ConsensusNode :: "XLSP \<Rightarrow> string \<Rightarrow> ConsensusNode" where
  "new_ConsensusNode codec nid =
     \<lparr>node_id = nid, chain = new_XenoChain codec, pending_blocks = []\<rparr>"

section \<open>Consensus node: validation and receipt\<close>

text \<open>Python truthiness of an optional string: \<^verbatim>\<open>None\<close> and \<^verbatim>\<open>""\<close> are false.\<close>

fun truthy :: "string option \<Rightarrow> bool" where
  "truthy None = False"
| "truthy (Some s) = (s \<noteq> [])"

text \<open>The loop over \<^verbatim>\<open>block.dependencies\<close> of \<^verbatim>\<open>validate_block\<close>, returning at the
  first hash that is missing from the index.\<close>

fun dependencies_resolved :: "(string \<rightharpoonup> BlockRecord) \<Rightarrow> string list \<Rightarrow> bool" where
  "dependencies_resolved idx [] = True"
| "dependencies_resolved idx (dep_hash # rest) =
     (if idx dep_hash = None then False else dependencies_resolved idx rest)"

text \<open>
  \<^verbatim>\<open>validate_block\<close>. Methods of the node return the result together with the node
  after the call; \<^verbatim>\<open>validate_block\<close> assigns to nothing, so the node comes back as it
  went in.
\<close>

definition validate_block :: "ConsensusNode \<Rightarrow> BlockRecord \<Rightarrow> bool \<times> ConsensusNode" where
  "validate_block self block =
     (let idx = hash_index (chain self) in
      if idx (hash block) \<noteq> None then (True, self)
      else if truthy (prev_hash block) \<and> idx (the (prev_hash block)) = None
        then (False, self)
      else if truthy (prev_hash block)
              \<and> agent_id (the (idx (the (prev_hash block)))) \<noteq> agent_id block
        then (False, self)
      else if \<not> dependencies_resolved idx (dependencies block) then (False, self)
      else (True, self))"

text \<open>\<^verbatim>\<open>receive_block\<close>: on acceptance the block is appended to the three indexes and
  every pending entry with its hash is dropped; on rejection it is appended to the
  pending list.\<close>

definition receive_block :: "ConsensusNode \<Rightarrow> BlockRecord \<Rightarrow> bool \<times> ConsensusNode" where
  "receive_block self0 block =
     (let (ok, self) = validate_block self0 block in
      if ok then
        (let c = chain self;
             c' = c\<lparr>blocks := blocks c @ [block],
                    agent_blocks := (agent_blocks c)
                       (agent_id block := agent_blocks c (agent_id block) @ [block]),
                    hash_index := (hash_index c)(hash block \<mapsto> block)\<rparr>
         in (True, self\<lparr>chain := c',
                         pending_blocks :=
                           filter (\<lambda>b. hash b \<noteq> hash block) (pending_blocks self)\<rparr>))
      else (False, self\<lparr>pending_blocks := pending_blocks self @ [block]\<rparr>))"

section \<open>Consensus node: broadcast\<close>

text \<open>
  A peer is any object that answers \<^verbatim>\<open>receive_block\<close>. \<open>Live\<close> is a
  \<^verbatim>\<open>ConsensusNode\<close> of this program; \<open>Unreachable\<close> stands for a peer whose call
  raises (a remote node that cannot be reached).
\<close>

datatype peer = Live ConsensusNode | Unreachable

fun peer_receive_block :: "peer \<Rightarrow> BlockRecord \<Rightarrow> error + (bool \<times> peer)" where
  "peer_receive_block (Live n) block =
     (let (ok, n') = receive_block n block in Inr (ok, Live n'))"
| "peer_receive_block Unreachable block = Inl PeerError"

text \<open>
  \<^verbatim>\<open>broadcast_block\<close>: the loop \<^verbatim>\<open>for peer in self.peers: await peer.receive_block(block)\<close>.
  There is no \<^verbatim>\<open>try\<close> around the call: an exception leaves the loop and the method.
  The result is the peers after the call and the exception that escaped, if any.
\<close>

fun broadcast_block :: "peer list \<Rightarrow> BlockRecord \<Rightarrow> peer list \<times> error option" where
  "broadcast_block [] block = ([], None)"
| "broadcast_block (p # ps) block =
     (case peer_receive_block p block of
        Inl e \<Rightarrow> (p # ps, Some e)
      | Inr (ok, p') \<Rightarrow>
          (let (ps', r) = broadcast_block ps block in (p' # ps', r)))"

section \<open>Ledger: state to profile and back\<close>

text \<open>
  \<^verbatim>\<open>_convert_state_to_profile\<close>. \<^verbatim>\<open>int(accuracy * 100)\<close> is evaluated twice, first for
  the hunger; the product is a float product, and \<^verbatim>\<open>int\<close> raises when it is infinite
  or not a number.
\<close>

definition convert_state_to_profile :: "string \<Rightarrow> snapshot \<Rightarrow> error + profile" where
  "convert_state_to_profile agent state =
     (let skill_count = int (length (case s_skills state of None \<Rightarrow> [] | Some xs \<Rightarrow> xs));
          accuracy = (case s_average_accuracy state of None \<Rightarrow> Fin (1 / 2) | Some a \<Rightarrow> a);
          learning_iterations = (case s_learning_iterations state of None \<Rightarrow> 0 | Some k \<Rightarrow> k);
          wealth = skill_count * 100 + learning_iterations * 50
      in case py_int (fmul accuracy 100) of
           Inl e \<Rightarrow> Inl e
         | Inr h \<Rightarrow>
            (case py_int (fmul accuracy 100) of
               Inl e \<Rightarrow> Inl e
             | Inr status \<Rightarrow>
                (let hunger = max 0 (100 - h);
                     rels = \<lparr>rel_dependencies = s_dependencies state,
                             rel_agents = s_related_agents state\<rparr>
                 in Inr \<lparr>p_id = agent, Wealth = wealth, Hunger = hunger, Status = status,
                         relationships =
                           (if rel_dependencies rels = None \<and> rel_agents rels = None
                            then None else Some rels)\<rparr>)))"

text \<open>Decimal digits of a natural number, for the names \<^verbatim>\<open>f"skill_{i}"\<close>.\<close>

fun string_of_nat :: "nat \<Rightarrow> string" where
  "string_of_nat n =
     (if n < 10 then [''0123456789'' ! n]
      else string_of_nat (n div 10) @ [''0123456789'' ! (n mod 10)])"

definition lookup_range :: "ranges \<Rightarrow> string \<Rightarrow> error + (float64 \<times> float64)" where
  "lookup_range rs k = (case map_of rs k of None \<Rightarrow> Inl KeyError | Some iv \<Rightarrow> Inr iv)"

text \<open>
  \<^verbatim>\<open>_convert_ranges_to_state\<close>. An empty mapping gives \<^verbatim>\<open>None\<close>; a missing metric
  raises \<^verbatim>\<open>KeyError\<close>; the two \<^verbatim>\<open>int\<close> conversions raise on an infinite or
  not-a-number argument, and the integer \<^verbatim>\<open>skill_count * 100\<close> is converted to a float
  for the subtraction. \<open>now\<close> is the reading of \<^verbatim>\<open>time.time()\<close>, used only when no
  block is given.
\<close>

definition convert_ranges_to_state ::
  "float64 \<Rightarrow> string \<Rightarrow> ranges \<Rightarrow> BlockRecord option \<Rightarrow> error + agent_state option" where
  "convert_ranges_to_state now agent rs block =
     (if rs = [] then Inr None
      else
        case lookup_range rs ''Wealth'' of Inl e \<Rightarrow> Inl e | Inr (wl, wh) \<Rightarrow>
        case lookup_range rs ''Hunger'' of Inl e \<Rightarrow> Inl e | Inr (hl, hh) \<Rightarrow>
        case lookup_range rs ''Status'' of Inl e \<Rightarrow> Inl e | Inr (sl, sh) \<Rightarrow>
          (let wealth = fdiv (fadd wl wh) 2;
               hunger = fdiv (fadd hl hh) 2;
               status = fdiv (fadd sl sh) 2
           in case py_int (fdiv wealth 100) of Inl e \<Rightarrow> Inl e | Inr k \<Rightarrow>
             (let skill_count = max 1 k;
                  accuracy = fdiv status 100
              in case float_of_int (skill_count * 100) of Inl e \<Rightarrow> Inl e | Inr c \<Rightarrow>
                 case py_int (fdiv (fsub wealth c) 50) of Inl e \<Rightarrow> Inl e | Inr j \<Rightarrow>
                   Inr (Some
                     \<lparr>r_agent_id = agent,
                      r_skills =
                        map (\<lambda>i. ''skill_'' @ string_of_nat i) [0 ..< nat skill_count],
                      r_average_accuracy = accuracy,
                      r_learning_iterations = max 0 j,
                      r_needs_training = flt (Fin 50) hunger,
                      r_timestamp = (case block of None \<Rightarrow> now | Some b \<Rightarrow> timestamp b),
                      r_dependencies =
                        (case block of None \<Rightarrow> None
                         | Some b \<Rightarrow>
                             if dependencies b \<noteq> [] then Some (dependencies b)
                             else None)\<rparr>))))"

section \<open>Ledger: appending and querying\<close>

text \<open>
  \<^verbatim>\<open>add_block\<close>. \<open>H\<close> is the hash function of the block constructor and \<open>now\<close> the
  reading of \<^verbatim>\<open>time.time()\<close>. The result is the new block's hash and the ledger after
  the call; when the profile conversion raises, nothing has been changed yet.
\<close>

definition add_block ::
  "hash_fn \<Rightarrow> float64 \<Rightarrow> XenoChain \<Rightarrow> string \<Rightarrow> snapshot \<Rightarrow> float64 \<Rightarrow> string list option
     \<Rightarrow> (string \<times> string) list option \<Rightarrow> error + (string \<times> XenoChain)" where
  "add_block H now self agent state delta_t deps meta =
     (case convert_state_to_profile agent state of
        Inl e \<Rightarrow> Inl e
      | Inr prof \<Rightarrow>
         (let sc = encode (xlsp self) prof delta_t;
              prev = (if agent_blocks self agent \<noteq> []
                      then Some (hash (last (agent_blocks self agent))) else None);
              block = new_BlockRecord H agent sc now prev
                        (case deps of None \<Rightarrow> [] | Some d \<Rightarrow> d)
                        (case meta of None \<Rightarrow> [] | Some m \<Rightarrow> m)
          in Inr (hash block,
                  self\<lparr>blocks := blocks self @ [block],
                       agent_blocks := (agent_blocks self)
                          (agent := agent_blocks self agent @ [block]),
                       hash_index := (hash_index self)(hash block \<mapsto> block)\<rparr>)))"

text \<open>A run of consecutive \<^verbatim>\<open>add_block\<close> calls for one agent; each call has its own
  snapshot, time window, dependencies, metadata and clock reading. The run ends at the
  first call that raises; the result is the ledger reached and the exception, if any.\<close>

type_synonym add_args =
  "snapshot \<times> float64 \<times> string list option \<times> (string \<times> string) list option \<times> float64"

fun add_blocks ::
  "hash_fn \<Rightarrow> XenoChain \<Rightarrow> string \<Rightarrow> add_args list \<Rightarrow> XenoChain \<times> error option" where
  "add_blocks H self agent [] = (self, None)"
| "add_blocks H self agent ((state, delta_t, deps, meta, now) # rest) =
     (case add_block H now self agent state delta_t deps meta of
        Inl e \<Rightarrow> (self, Some e)
      | Inr (h, self') \<Rightarrow> add_blocks H self' agent rest)"

definition get_state ::
  "float64 \<Rightarrow> XenoChain \<Rightarrow> string \<Rightarrow> float64 \<Rightarrow> string option
     \<Rightarrow> error + agent_state option" where
  "get_state now self agent delta_t block_hash =
     (let found =
        (if truthy block_hash then
           (case hash_index self (the block_hash) of
              None \<Rightarrow> None
            | Some block \<Rightarrow> if agent_id block \<noteq> agent then None else Some block)
         else if agent_blocks self agent = [] then None
         else Some (last (agent_blocks self agent)))
      in case found of
           None \<Rightarrow> Inr None
         | Some block \<Rightarrow>
             convert_ranges_to_state now agent
               (decode (xlsp self) (scan block) delta_t) (Some block))"

text \<open>Python's \<^verbatim>\<open>min(xs, key=k)\<close> on a non-empty sequence with float keys: the best
  element so far is replaced only by one whose key is \<^verbatim>\<open><\<close> the best key.\<close>

fun py_min_key :: "('a \<Rightarrow> float64) \<Rightarrow> 'a \<Rightarrow> 'a list \<Rightarrow> 'a" where
  "py_min_key k best [] = best"
| "py_min_key k best (x # xs) =
     (if flt (k x) (k best) then py_min_key k x xs else py_min_key k best xs)"

text \<open>The key of \<^verbatim>\<open>get_agent_at_time\<close>: \<^verbatim>\<open>abs(b.timestamp - timestamp)\<close>, a float.\<close>

definition time_distance :: "float64 \<Rightarrow> BlockRecord \<Rightarrow> float64" where
  "time_distance ts b = fabs (fsub (timestamp b) ts)"

definition get_agent_at_time ::
  "float64 \<Rightarrow> XenoChain \<Rightarrow> string \<Rightarrow> float64 \<Rightarrow> float64 \<Rightarrow> error + agent_state option" where
  "get_agent_at_time now self agent ts delta_t =
     (case agent_blocks self agent of
        [] \<Rightarrow> Inr None
      | b # bs \<Rightarrow>
          (let closest_block = py_min_key (time_distance ts) b bs
           in convert_ranges_to_state now agent
                (decode (xlsp self) (scan closest_block) delta_t) (Some closest_block)))"

section \<open>Example values\<close>

text \<open>A codec that decodes every scan to the empty mapping, one that decodes to fixed
  intervals, and a hash function that joins the agent and the previous hash.\<close>

definition empty_codec :: XLSP where
  "empty_codec = \<lparr>encode = (\<lambda>p dt. ''scan''), decode = (\<lambda>s dt. [])\<rparr>"

definition example_ranges :: ranges where
  "example_ranges =
     [(''Wealth'', (Fin 340, Fin 360)), (''Hunger'', (Fin 10, Fin 30)),
      (''Status'', (Fin 70, Fin 90))]"

text \<open>Intervals whose Wealth bounds are the float \<open>2\<^sup>1\<^sup>0\<^sup>2\<^sup>3\<close>: their sum overflows.\<close>

definition float_2_1023 :: float64 where
  "float_2_1023 = Fin (2 ^ 1023)"

definition overflow_ranges :: ranges where
  "overflow_ranges =
     [(''Wealth'', (float_2_1023, float_2_1023)), (''Hunger'', (Fin 10, Fin 30)),
      (''Status'', (Fin 70, Fin 90))]"

definition fixed_codec :: XLSP where
  "fixed_codec = \<lparr>encode = (\<lambda>p dt. ''scan''), decode = (\<lambda>s dt. example_ranges)\<rparr>"

definition example_hash :: hash_fn where
  "example_hash a s t p d m = a @ ''#'' @ (case p of None \<Rightarrow> [] | Some h \<Rightarrow> h)"

definition example_block ::
  "string \<Rightarrow> float64 \<Rightarrow> string option \<Rightarrow> string list \<Rightarrow> string \<Rightarrow> BlockRecord" where
  "example_block a t p d h =
     \<lparr>agent_id = a, scan = ''scan'', timestamp = t, prev_hash = p, dependencies = d,
      metadata = [], hash = h\<rparr>"

text \<open>The float nearest to \<open>0.8\<close>, and the snapshot of the specification's example
  with a given accuracy.\<close>

definition double_0_8 :: float64 where
  "double_0_8 = Fin (3602879701896397 / 4503599627370496)"

definition example_snapshot :: "float64 \<Rightarrow> snapshot" where
  "example_snapshot acc =
     \<lparr>s_skills = Some [''s1'', ''s2''], s_average_accuracy = Some acc,
      s_learning_iterations = Some 3, s_dependencies = None, s_related_agents = None\<rparr>"

definition genesis_block :: BlockRecord where
  "genesis_block = example_block ''a1'' (Fin 1) None [] ''h0''"

definition orphan_block :: BlockRecord where
  "orphan_block = example_block ''a1'' (Fin 2) (Some ''missing'') [] ''h1''"

definition forged_block :: BlockRecord where
  "forged_block = example_block ''a1'' (Fin 1) None [] ''forged''"

definition empty_node :: ConsensusNode where
  "empty_node = new_ConsensusNode empty_codec ''n0''"

definition genesis_node :: ConsensusNode where
  "genesis_node = snd (receive_block empty_node genesis_block)"

text \<open>Three consecutive calls for one agent, at clock readings 10, 20 and 30, the
  blocks they create, and the ledgers they give with each codec.\<close>

definition example_calls :: "add_args list" where
  "example_calls =
     [(example_snapshot (Fin (1 / 2)), Fin 1, None, None, Fin 10),
      (example_snapshot (Fin (1 / 2)), Fin 1, None, None, Fin 20),
      (example_snapshot (Fin (1 / 2)), Fin 1, Some [''a1#''], None, Fin 30)]"

definition example_chain :: XenoChain where
  "example_chain =
     fst (add_blocks example_hash (new_XenoChain fixed_codec) ''a1'' example_calls)"

definition chain_block_0 :: BlockRecord where
  "chain_block_0 = new_BlockRecord example_hash ''a1'' ''scan'' (Fin 10) None [] []"

definition chain_block_1 :: BlockRecord where
  "chain_block_1 = new_BlockRecord example_hash ''a1'' ''scan'' (Fin 20) (Some ''a1#'') [] []"

definition chain_block_2 :: BlockRecord where
  "chain_block_2 =
     new_BlockRecord example_hash ''a1'' ''scan'' (Fin 30) (Some ''a1#a1#'') [''a1#''] []"

definition empty_codec_chain :: XenoChain where
  "empty_codec_chain =
     fst (add_blocks example_hash (new_XenoChain empty_codec) ''a1''
            [(example_snapshot (Fin (1 / 2)), Fin 1, None, None, Fin 10)])"

text \<open>Two calls at clock readings \<open>-1\<close> and \<open>1\<close>: seen from the time \<open>10\<^sup>1\<^sup>7\<close> the two
  float distances are equal, although the exact ones are not.\<close>

definition far_time :: float64 where
  "far_time = Fin (10 ^ 17)"

definition rounding_chain :: XenoChain where
  "rounding_chain =
     fst (add_blocks example_hash (new_XenoChain fixed_codec) ''a1''
            [(example_snapshot (Fin (1 / 2)), Fin 1, None, None, Fin (- 1)),
             (example_snapshot (Fin (1 / 2)), Fin 1, None, None, Fin 1)])"

text \<open>The chain property of a per-agent sequence: the first block has no
  \<^verbatim>\<open>prev_hash\<close>, every later one names the hash of its predecessor.\<close>

definition linked_chain :: "BlockRecord list \<Rightarrow> bool" where
  "linked_chain bs \<longleftrightarrow>
     (bs \<noteq> [] \<longrightarrow> prev_hash (bs ! 0) = None)
     \<and> (\<forall>i. 1 \<le> i \<and> i < length bs \<longrightarrow> prev_hash (bs ! i) = Some (hash (bs ! (i - 1))))"

lemmas example_defs =
  example_block_def genesis_block_def orphan_block_def forged_block_def empty_node_def
  new_ConsensusNode_def new_XenoChain_def empty_codec_def fixed_codec_def example_hash_def
  example_ranges_def example_snapshot_def example_calls_def

section \<open>Properties of the binary64 operations\<close>

lemma pow2_powr: "pow2 e = 2 powr (real_of_int e)"
  by (simp add: pow2_def powr_int)

lemma pow2_mono: "e \<le> e' \<Longrightarrow> pow2 e \<le> pow2 e'"
  by (simp add: pow2_powr powr_mono)

lemma exp_search_found:
  assumes "- 1021 \<le> e" "e \<le> int n - 1022" "pow2 e \<le> \<bar>x\<bar>" "\<bar>x\<bar> < pow2 (e + 1)"
  shows "exp_search n x = e"
  using assms
proof (induction n)
  case 0
  then show ?case by simp
next
  case (Suc n)
  show ?case
  proof (cases "e = int n - 1021")
    case True
    with Suc.prems show ?thesis by simp
  next
    case False
    with Suc.prems have le: "e + 1 \<le> int n - 1021" by simp
    from pow2_mono [OF le] Suc.prems(4) have "\<not> pow2 (int n - 1021) \<le> \<bar>x\<bar>" by simp
    moreover from le have "e \<le> int n - 1022" by simp
    ultimately show ?thesis using Suc.IH Suc.prems by simp
  qed
qed

lemma exp_search_small:
  assumes "\<bar>x\<bar> < pow2 (- 1021)"
  shows "exp_search n x = - 1022"
proof (induction n)
  case 0
  show ?case by simp
next
  case (Suc n)
  have "- 1021 \<le> int n - 1021" by simp
  from pow2_mono [OF this] assms have "\<not> pow2 (int n - 1021) \<le> \<bar>x\<bar>" by simp
  with Suc.IH show ?case by simp
qed

lemma exp_search_top:
  "0 < n \<Longrightarrow> pow2 (int n - 1022) \<le> \<bar>x\<bar> \<Longrightarrow> exp_search n x = int n - 1022"
  by (cases n) simp_all

lemma float_exponent_normal:
  assumes "- 1021 \<le> e" "e \<le> 1023" "pow2 e \<le> \<bar>x\<bar>" "\<bar>x\<bar> < pow2 (e + 1)"
  shows "float_exponent x = e"
  unfolding float_exponent_def using assms by (intro exp_search_found) simp_all

lemma float_exponent_small: "\<bar>x\<bar> < pow2 (- 1021) \<Longrightarrow> float_exponent x = - 1022"
  unfolding float_exponent_def by (rule exp_search_small)

lemma float_exponent_top: "pow2 1023 \<le> \<bar>x\<bar> \<Longrightarrow> float_exponent x = 1023"
  unfolding float_exponent_def using exp_search_top [of 2045 x] by simp

text \<open>Rounding, once the binade of the argument is known.\<close>

lemma round64_normal:
  assumes "- 1021 \<le> e" "e \<le> 1023" "pow2 e \<le> \<bar>x\<bar>" "\<bar>x\<bar> < pow2 (e + 1)"
  shows "round64 x =
     (if pow2 1024 \<le> \<bar>of_int (round_half_even (x / pow2 (e - 52))) * pow2 (e - 52)\<bar>
      then (if 0 < x then PInf else NInf)
      else Fin (of_int (round_half_even (x / pow2 (e - 52))) * pow2 (e - 52)))"
  by (simp add: round64_def Let_def float_exponent_normal [OF assms])

lemma round64_top:
  assumes "pow2 1023 \<le> \<bar>x\<bar>"
  shows "round64 x =
     (if pow2 1024 \<le> \<bar>of_int (round_half_even (x / pow2 971)) * pow2 971\<bar>
      then (if 0 < x then PInf else NInf)
      else Fin (of_int (round_half_even (x / pow2 971)) * pow2 971))"
  by (simp add: round64_def Let_def float_exponent_top [OF assms])

lemma round64_0: "round64 0 = Fin 0"
proof -
  have "float_exponent 0 = - 1022"
    by (rule float_exponent_small) (simp add: pow2_def)
  moreover have "\<not> pow2 1024 \<le> 0" by (simp add: pow2_def)
  ultimately show ?thesis
    by (simp add: round64_def Let_def round_half_even_def)
qed

lemma round64_not_NaN: "round64 x \<noteq> NaN"
  by (simp add: round64_def Let_def)




lemma flt_irrefl: "\<not> flt a a"
  by (cases a) auto


lemmas round64_eval = pow2_def round_half_even_def Let_def

text \<open>Values of the operations that the examples use.\<close>

lemma fmul_examples:
  "fmul (Fin (1 / 2)) 100 = Fin 50"
  "fmul (Fin (23 / 32)) 100 = Fin (575 / 8)"
  "fmul double_0_8 100 = Fin 80"
  "fmul (Fin (5404319552844595 / 18014398509481984)) 100 = Fin 30"
  by (simp_all add: double_0_8_def round64_normal [where e = 5] round64_normal [where e = 6]
        round64_normal [where e = 4] round64_eval)

lemma midpoint_examples:
  "fdiv (fadd (Fin 340) (Fin 360)) 2 = Fin 350"
  "fdiv (fadd (Fin 10) (Fin 30)) 2 = Fin 20"
  "fdiv (fadd (Fin 70) (Fin 90)) 2 = Fin 80"
  "fdiv (fadd float_2_1023 float_2_1023) 2 = PInf"
  by (simp_all add: float_2_1023_def round64_normal [where e = 9] round64_normal [where e = 8]
        round64_normal [where e = 5] round64_normal [where e = 7]
        round64_normal [where e = 4] round64_normal [where e = 6] round64_top round64_eval)

lemma state_examples:
  "fdiv (Fin 350) 100 = Fin (7 / 2)"
  "float_of_int 300 = Inr (Fin 300)"
  "fdiv (fsub (Fin 350) (Fin 300)) 50 = Fin 1"
  "fdiv (Fin 80) 100 = double_0_8"
  by (simp_all add: double_0_8_def float_of_int_def fsub_def
        round64_normal [of 1] round64_normal [where e = 8]
        round64_normal [where e = 5] round64_normal [of 0]
        round64_normal [of "- 1"] round64_eval)

lemma distance_examples:
  "fabs (fsub (Fin 10) (Fin 15)) = Fin 5"
  "fabs (fsub (Fin 20) (Fin 15)) = Fin 5"
  "fabs (fsub (Fin 30) (Fin 15)) = Fin 15"
  "fabs (fsub (Fin (- 1)) far_time) = far_time"
  "fabs (fsub (Fin 1) far_time) = far_time"
  by (simp_all add: far_time_def fsub_def round64_normal [where e = 2] round64_normal [where e = 3]
        round64_normal [where e = 56] round64_eval)

section \<open>Properties of validation\<close>

lemma dependencies_resolved_iff:
  "dependencies_resolved idx ds \<longleftrightarrow> (\<forall>d \<in> set ds. idx d \<noteq> None)"
  by (induction ds) auto

lemma validate_block_state: "snd (validate_block n b) = n"
  by (simp add: validate_block_def Let_def)

lemma validate_block_fst_iff:
  "fst (validate_block n b) \<longleftrightarrow>
      hash_index (chain n) (hash b) \<noteq> None
      \<or> ((\<forall>p. prev_hash b = Some p \<and> p \<noteq> [] \<longrightarrow>
             (\<exists>pb. hash_index (chain n) p = Some pb \<and> agent_id pb = agent_id b))
         \<and> (\<forall>d \<in> set (dependencies b). hash_index (chain n) d \<noteq> None))"
proof (cases "prev_hash b")
  case None
  then show ?thesis
    by (simp add: validate_block_def Let_def dependencies_resolved_iff)
next
  case (Some p)
  then show ?thesis
    by (cases "hash_index (chain n) p")
       (auto simp add: validate_block_def Let_def dependencies_resolved_iff)
qed

text \<open>
  Claim C2. \<^verbatim>\<open>validate_block\<close> accepts exactly when the block's hash is already
  indexed, or when both hold: a non-empty \<^verbatim>\<open>prev_hash\<close> is indexed and names a block of
  the same agent, and every dependency hash is indexed. The node is returned unchanged.
\<close>

theorem validate_block_accepts_iff:
  "(fst (validate_block n b) \<longleftrightarrow>
      hash_index (chain n) (hash b) \<noteq> None
      \<or> ((\<forall>p. prev_hash b = Some p \<and> p \<noteq> [] \<longrightarrow>
             (\<exists>pb. hash_index (chain n) p = Some pb \<and> agent_id pb = agent_id b))
         \<and> (\<forall>d \<in> set (dependencies b). hash_index (chain n) d \<noteq> None)))
   \<and> snd (validate_block n b) = n"
  using validate_block_fst_iff [of n b] validate_block_state [of n b] by blast

text \<open>At the empty node: the genesis block is accepted, the orphan block (its
  \<^verbatim>\<open>prev_hash\<close> is not indexed) is rejected, neither changes the node.\<close>

theorem validate_block_accepts_iff_witness:
  "fst (validate_block empty_node genesis_block)
   \<and> snd (validate_block empty_node genesis_block) = empty_node
   \<and> \<not> fst (validate_block empty_node orphan_block)
   \<and> snd (validate_block empty_node orphan_block) = empty_node"
  using validate_block_accepts_iff [of empty_node genesis_block]
        validate_block_accepts_iff [of empty_node orphan_block]
  by (simp add: example_defs)

section \<open>Properties of receipt\<close>

lemma receive_block_accepted:
  assumes "fst (validate_block n b)"
  shows "receive_block n b =
     (True, n\<lparr>chain := (chain n)\<lparr>blocks := blocks (chain n) @ [b],
                    agent_blocks := (agent_blocks (chain n))
                       (agent_id b := agent_blocks (chain n) (agent_id b) @ [b]),
                    hash_index := (hash_index (chain n))(hash b \<mapsto> b)\<rparr>,
              pending_blocks := filter (\<lambda>x. hash x \<noteq> hash b) (pending_blocks n)\<rparr>)"
proof -
  from assms have "validate_block n b = (True, n)"
    using validate_block_state [of n b] by (cases "validate_block n b") simp
  then show ?thesis by (simp add: receive_block_def Let_def)
qed

lemma receive_block_rejected:
  assumes "\<not> fst (validate_block n b)"
  shows "receive_block n b = (False, n\<lparr>pending_blocks := pending_blocks n @ [b]\<rparr>)"
proof -
  from assms have "validate_block n b = (False, n)"
    using validate_block_state [of n b] by (cases "validate_block n b") simp
  then show ?thesis by (simp add: receive_block_def)
qed

lemma receive_block_fst: "fst (receive_block n b) = fst (validate_block n b)"
  by (cases "fst (validate_block n b)")
     (simp_all add: receive_block_accepted receive_block_rejected)

text \<open>Re-delivery of a block whose hash is indexed, for any node: the call returns
  true and appends the block once more to the global and the per-agent sequence.\<close>

lemma receive_block_known_appends:
  assumes "hash_index (chain n) (hash b) \<noteq> None"
  shows "fst (receive_block n b)"
    and "blocks (chain (snd (receive_block n b))) = blocks (chain n) @ [b]"
    and "agent_blocks (chain (snd (receive_block n b))) (agent_id b)
           = agent_blocks (chain n) (agent_id b) @ [b]"
proof -
  from assms have "fst (validate_block n b)" by (simp add: validate_block_fst_iff)
  then have eq: "receive_block n b =
     (True, n\<lparr>chain := (chain n)\<lparr>blocks := blocks (chain n) @ [b],
                    agent_blocks := (agent_blocks (chain n))
                       (agent_id b := agent_blocks (chain n) (agent_id b) @ [b]),
                    hash_index := (hash_index (chain n))(hash b \<mapsto> b)\<rparr>,
              pending_blocks := filter (\<lambda>x. hash x \<noteq> hash b) (pending_blocks n)\<rparr>)"
    by (rule receive_block_accepted)
  show "fst (receive_block n b)" by (simp add: eq)
  show "blocks (chain (snd (receive_block n b))) = blocks (chain n) @ [b]"
    by (simp add: eq)
  show "agent_blocks (chain (snd (receive_block n b))) (agent_id b)
           = agent_blocks (chain n) (agent_id b) @ [b]"
    by (simp add: eq)
qed

text \<open>
  Claim C1. Re-delivery of an accepted block is reported as success, but it is not a
  no-op: the empty node accepts the genesis block, and a second delivery of the same
  block returns true and leaves it twice in the global sequence and twice in the
  sequence of its agent. Only the hash index is the same after the second delivery.
\<close>

theorem receive_block_redelivery_duplicates:
  "fst (receive_block empty_node genesis_block)
   \<and> blocks (chain (snd (receive_block empty_node genesis_block))) = [genesis_block]
   \<and> hash_index (chain (snd (receive_block empty_node genesis_block))) (hash genesis_block)
       = Some genesis_block
   \<and> fst (receive_block (snd (receive_block empty_node genesis_block)) genesis_block)
   \<and> blocks (chain (snd (receive_block (snd (receive_block empty_node genesis_block))
        genesis_block))) = [genesis_block, genesis_block]
   \<and> agent_blocks (chain (snd (receive_block (snd (receive_block empty_node genesis_block))
        genesis_block))) ''a1'' = [genesis_block, genesis_block]
   \<and> hash_index (chain (snd (receive_block (snd (receive_block empty_node genesis_block))
        genesis_block)))
       = hash_index (chain (snd (receive_block empty_node genesis_block)))"
  by (simp add: receive_block_def validate_block_def Let_def example_defs)

text \<open>
  Claim C4, as stated, fails: the orphan block is rejected twice by the empty node and
  is then twice in the pending list.
\<close>

theorem pending_blocks_duplicate_counterexample:
  "\<not> fst (receive_block empty_node orphan_block)
   \<and> \<not> fst (receive_block (snd (receive_block empty_node orphan_block)) orphan_block)
   \<and> map hash (pending_blocks
        (snd (receive_block (snd (receive_block empty_node orphan_block)) orphan_block)))
       = [hash orphan_block, hash orphan_block]"
  by (simp add: receive_block_def validate_block_def Let_def example_defs)

text \<open>
  Claim C4, amended. When \<^verbatim>\<open>receive_block\<close> rejects a block, the block is appended
  to the end of the pending list with no check for an entry of the same hash: the
  number of pending entries with that hash grows by exactly one, and the ledger is
  unchanged.
\<close>

theorem receive_block_reject_appends:
  assumes "\<not> fst (receive_block n b)"
  shows "pending_blocks (snd (receive_block n b)) = pending_blocks n @ [b]
         \<and> chain (snd (receive_block n b)) = chain n
         \<and> length (filter (\<lambda>x. hash x = hash b) (pending_blocks (snd (receive_block n b))))
             = Suc (length (filter (\<lambda>x. hash x = hash b) (pending_blocks n)))"
proof -
  from assms have "\<not> fst (validate_block n b)" by (simp add: receive_block_fst)
  then have "receive_block n b = (False, n\<lparr>pending_blocks := pending_blocks n @ [b]\<rparr>)"
    by (rule receive_block_rejected)
  then show ?thesis by simp
qed

theorem receive_block_reject_appends_witness:
  "\<not> fst (receive_block empty_node orphan_block)
   \<and> pending_blocks (snd (receive_block empty_node orphan_block)) = [orphan_block]
   \<and> chain (snd (receive_block empty_node orphan_block)) = chain empty_node"
proof -
  have rej: "\<not> fst (receive_block empty_node orphan_block)"
    by (simp add: receive_block_def validate_block_def Let_def example_defs)
  have "pending_blocks empty_node = []" by (simp add: example_defs)
  with receive_block_reject_appends [OF rej] rej show ?thesis by simp
qed

text \<open>
  Claim C9. Acceptance never compares the stored \<^verbatim>\<open>hash\<close> with the hash of the
  block's content: a block whose \<^verbatim>\<open>hash\<close> differs from the content hash, for whatever
  hash function \<open>H\<close> the constructor uses, is accepted by \<^verbatim>\<open>validate_block\<close> as soon as
  its \<^verbatim>\<open>prev_hash\<close> and dependency constraints hold, and \<^verbatim>\<open>receive_block\<close> appends it
  and indexes it under the forged hash.
\<close>

theorem forged_hash_accepted:
  assumes "hash b \<noteq> content_hash H b"
    and "\<forall>p. prev_hash b = Some p \<and> p \<noteq> [] \<longrightarrow>
           (\<exists>pb. hash_index (chain n) p = Some pb \<and> agent_id pb = agent_id b)"
    and "\<forall>d \<in> set (dependencies b). hash_index (chain n) d \<noteq> None"
  shows "fst (validate_block n b) \<and> fst (receive_block n b)
         \<and> hash_index (chain (snd (receive_block n b))) (hash b) = Some b
         \<and> blocks (chain (snd (receive_block n b))) = blocks (chain n) @ [b]"
proof -
  from assms(2,3) have v: "fst (validate_block n b)"
    by (simp add: validate_block_fst_iff)
  from receive_block_accepted [OF v] v show ?thesis by simp
qed

theorem forged_hash_accepted_witness:
  "hash forged_block \<noteq> content_hash example_hash forged_block
   \<and> fst (validate_block empty_node forged_block)
   \<and> fst (receive_block empty_node forged_block)
   \<and> hash_index (chain (snd (receive_block empty_node forged_block))) ''forged''
       = Some forged_block
   \<and> blocks (chain (snd (receive_block empty_node forged_block))) = [forged_block]"
proof -
  have h: "hash forged_block \<noteq> content_hash example_hash forged_block"
    by (simp add: content_hash_def example_defs)
  have p: "\<forall>p. prev_hash forged_block = Some p \<and> p \<noteq> [] \<longrightarrow>
           (\<exists>pb. hash_index (chain empty_node) p = Some pb
                 \<and> agent_id pb = agent_id forged_block)"
    by (simp add: example_defs)
  have d: "\<forall>d \<in> set (dependencies forged_block). hash_index (chain empty_node) d \<noteq> None"
    by (simp add: example_defs)
  have "hash forged_block = ''forged''" "blocks (chain empty_node) = []"
    by (simp_all add: example_defs)
  with forged_hash_accepted [OF h p d] h show ?thesis by simp
qed

section \<open>Properties of broadcast\<close>

lemma broadcast_block_all_succeed:
  "list_all2 (\<lambda>p p'. \<exists>ok. peer_receive_block p b = Inr (ok, p')) ps ps'
     \<Longrightarrow> broadcast_block ps b = (ps', None)"
  by (induction ps ps' rule: list_all2_induct) auto

lemma broadcast_block_first_failure:
  "list_all2 (\<lambda>p p'. \<exists>ok. peer_receive_block p b = Inr (ok, p')) qs qs'
     \<Longrightarrow> peer_receive_block p b = Inl e
     \<Longrightarrow> broadcast_block (qs @ p # rs) b = (qs' @ p # rs, Some e)"
  by (induction qs qs' rule: list_all2_induct) auto

text \<open>
  Claim C3, as stated, fails: with an unreachable peer listed before a live one, the
  broadcast ends with the error of the first peer and the live peer is never called.
  It would have accepted the block; its ledger is still empty.
\<close>

theorem broadcast_block_abort_counterexample:
  "broadcast_block [Unreachable, Live empty_node] genesis_block
     = ([Unreachable, Live empty_node], Some PeerError)
   \<and> peer_receive_block (Live empty_node) genesis_block = Inr (True, Live genesis_node)
   \<and> blocks (chain genesis_node) = [genesis_block]
   \<and> blocks (chain empty_node) = []"
  by (simp add: genesis_node_def receive_block_def validate_block_def Let_def example_defs)

text \<open>
  Claim C3, amended. \<^verbatim>\<open>broadcast_block\<close> calls \<^verbatim>\<open>receive_block\<close> on the peers in
  list order with no error handling. If every call returns, every peer has received
  the block and no error is reported. If a peer's call fails, the peers before it have
  received the block, the error leaves \<^verbatim>\<open>broadcast_block\<close> at once, and the failing
  peer and all peers after it are left as they were.
\<close>

theorem broadcast_block_stops_at_failure:
  "(list_all2 (\<lambda>p p'. \<exists>ok. peer_receive_block p b = Inr (ok, p')) ps ps'
      \<longrightarrow> broadcast_block ps b = (ps', None))
   \<and> (list_all2 (\<lambda>p p'. \<exists>ok. peer_receive_block p b = Inr (ok, p')) qs qs'
        \<and> peer_receive_block p b = Inl e
      \<longrightarrow> broadcast_block (qs @ p # rs) b = (qs' @ p # rs, Some e))"
  using broadcast_block_all_succeed [of b ps ps']
        broadcast_block_first_failure [of b qs qs' p e rs]
  by blast

theorem broadcast_block_stops_at_failure_witness:
  "list_all2 (\<lambda>p p'. \<exists>ok. peer_receive_block p genesis_block = Inr (ok, p'))
      [Live empty_node] [Live genesis_node]
   \<and> peer_receive_block Unreachable genesis_block = Inl PeerError
   \<and> broadcast_block [Live empty_node] genesis_block = ([Live genesis_node], None)
   \<and> broadcast_block ([Live empty_node] @ Unreachable # [Live empty_node]) genesis_block
       = ([Live genesis_node] @ Unreachable # [Live empty_node], Some PeerError)"
proof -
  have ok: "list_all2 (\<lambda>p p'. \<exists>ok. peer_receive_block p genesis_block = Inr (ok, p'))
      [Live empty_node] [Live genesis_node]"
    by (simp add: genesis_node_def split_beta)
  have bad: "peer_receive_block Unreachable genesis_block = Inl PeerError" by simp
  from broadcast_block_stops_at_failure
         [of genesis_block "[Live empty_node]" "[Live genesis_node]"
             "[Live empty_node]" "[Live genesis_node]" Unreachable PeerError
             "[Live empty_node]"]
       ok bad
  show ?thesis by blast
qed

section \<open>Properties of appending\<close>

lemma add_block_raises:
  "convert_state_to_profile a st = Inl e \<Longrightarrow> add_block H now c a st dt deps meta = Inl e"
  by (simp add: add_block_def)

lemma add_block_agent_blocks:
  assumes "add_block H now c a st dt deps meta = Inr (h, c')"
  shows "\<exists>b. agent_blocks c' a = agent_blocks c a @ [b]
           \<and> prev_hash b = (if agent_blocks c a \<noteq> []
                            then Some (hash (last (agent_blocks c a))) else None)"
  using assms
  by (auto simp add: add_block_def Let_def new_BlockRecord_def split: sum.splits)

lemma add_block_returns:
  "convert_state_to_profile a st = Inr p \<Longrightarrow>
   \<exists>h c'. add_block H now c a st dt deps meta = Inr (h, c')"
  by (simp add: add_block_def Let_def)

lemma linked_chain_snoc:
  assumes "linked_chain bs"
    and "prev_hash b = (if bs \<noteq> [] then Some (hash (last bs)) else None)"
  shows "linked_chain (bs @ [b])"
proof (cases "bs = []")
  case True
  with assms show ?thesis by (simp add: linked_chain_def)
next
  case False
  have "prev_hash ((bs @ [b]) ! i) = Some (hash ((bs @ [b]) ! (i - 1)))"
    if "1 \<le> i" "i < length (bs @ [b])" for i
  proof (cases "i < length bs")
    case True
    then have "i - 1 < length bs" by simp
    moreover from assms(1) that(1) True
    have "prev_hash (bs ! i) = Some (hash (bs ! (i - 1)))"
      by (simp add: linked_chain_def)
    ultimately show ?thesis using True by (simp add: nth_append)
  next
    case past: False
    with that have "i = length bs" by simp
    with False assms(2) show ?thesis by (simp add: nth_append last_conv_nth)
  qed
  moreover have "prev_hash ((bs @ [b]) ! 0) = None"
    using False assms(1) by (simp add: linked_chain_def nth_append)
  ultimately show ?thesis by (simp add: linked_chain_def)
qed

lemma add_blocks_linked:
  "linked_chain (agent_blocks c a)
    \<Longrightarrow> linked_chain (agent_blocks (fst (add_blocks H c a calls)) a)
        \<and> length (agent_blocks (fst (add_blocks H c a calls)) a)
            \<le> length (agent_blocks c a) + length calls
        \<and> (snd (add_blocks H c a calls) = None \<longrightarrow>
             length (agent_blocks (fst (add_blocks H c a calls)) a)
               = length (agent_blocks c a) + length calls)"
proof (induction calls arbitrary: c)
  case Nil
  then show ?case by simp
next
  case (Cons call calls)
  obtain st dt deps meta now where call: "call = (st, dt, deps, meta, now)"
    by (cases call) auto
  show ?case
  proof (cases "add_block H now c a st dt deps meta")
    case (Inl e)
    with Cons.prems call show ?thesis by simp
  next
    case (Inr r)
    obtain h c' where r: "r = (h, c')" by (cases r) auto
    from add_block_agent_blocks [OF Inr [unfolded r]]
    obtain b where b: "agent_blocks c' a = agent_blocks c a @ [b]"
      "prev_hash b = (if agent_blocks c a \<noteq> []
                      then Some (hash (last (agent_blocks c a))) else None)"
      by blast
    have "linked_chain (agent_blocks c' a)"
      unfolding b(1) by (rule linked_chain_snoc [OF Cons.prems b(2)])
    from Cons.IH [OF this] show ?thesis
      by (simp add: call Inr r b(1))
  qed
qed

lemma add_blocks_no_error:
  "\<forall>call \<in> set calls. \<exists>p. convert_state_to_profile a (fst call) = Inr p
     \<Longrightarrow> snd (add_blocks H c a calls) = None"
proof (induction calls arbitrary: c)
  case Nil
  then show ?case by simp
next
  case (Cons call calls)
  obtain st dt deps meta now where call: "call = (st, dt, deps, meta, now)"
    by (cases call) auto
  from Cons.prems call obtain p where "convert_state_to_profile a st = Inr p" by auto
  from add_block_returns [OF this, of H now c dt deps meta]
  obtain h c' where "add_block H now c a st dt deps meta = Inr (h, c')" by blast
  with Cons show ?case by (simp add: call)
qed

text \<open>
  Claim C5. Starting from a ledger in which agent \<open>a\<close> has no blocks, a run of
  consecutive \<^verbatim>\<open>add_block\<close> calls for \<open>a\<close> leaves a per-agent sequence in which block 0
  has no \<^verbatim>\<open>prev_hash\<close> and the \<^verbatim>\<open>prev_hash\<close> of every later block \<open>i\<close> is the hash of
  block \<open>i - 1\<close>, for every hash function, codec, snapshot and clock. The sequence has
  \<open>N\<close> blocks when none of the \<open>N\<close> calls raises, and none raises when the profile
  conversion of every snapshot succeeds.
\<close>

theorem add_blocks_chain:
  assumes "agent_blocks c a = []"
  shows "length (agent_blocks (fst (add_blocks H c a calls)) a) \<le> length calls
     \<and> (agent_blocks (fst (add_blocks H c a calls)) a \<noteq> [] \<longrightarrow>
          prev_hash (agent_blocks (fst (add_blocks H c a calls)) a ! 0) = None)
     \<and> (\<forall>i. 1 \<le> i \<and> i < length (agent_blocks (fst (add_blocks H c a calls)) a) \<longrightarrow>
           prev_hash (agent_blocks (fst (add_blocks H c a calls)) a ! i)
             = Some (hash (agent_blocks (fst (add_blocks H c a calls)) a ! (i - 1))))
     \<and> (snd (add_blocks H c a calls) = None \<longrightarrow>
          length (agent_blocks (fst (add_blocks H c a calls)) a) = length calls)
     \<and> ((\<forall>call \<in> set calls. \<exists>p. convert_state_to_profile a (fst call) = Inr p) \<longrightarrow>
          snd (add_blocks H c a calls) = None)"
proof -
  have "linked_chain (agent_blocks c a)" by (simp add: assms linked_chain_def)
  from add_blocks_linked [OF this, of H calls] assms
  have l: "linked_chain (agent_blocks (fst (add_blocks H c a calls)) a)"
    and n: "length (agent_blocks (fst (add_blocks H c a calls)) a) \<le> length calls"
    and m: "snd (add_blocks H c a calls) = None \<longrightarrow>
          length (agent_blocks (fst (add_blocks H c a calls)) a) = length calls"
    by simp_all
  from l n m add_blocks_no_error [of calls a H c] show ?thesis
    unfolding linked_chain_def by blast
qed

text \<open>The profile of the example snapshot with accuracy one half.\<close>

lemma example_profile:
  "convert_state_to_profile ''a1'' (example_snapshot (Fin (1 / 2)))
     = Inr \<lparr>p_id = ''a1'', Wealth = 350, Hunger = 50, Status = 50, relationships = None\<rparr>"
  by (simp add: convert_state_to_profile_def example_snapshot_def fmul_examples Let_def
        del: fmul.simps(1))

lemma example_chain_blocks:
  "agent_blocks example_chain ''a1'' = [chain_block_0, chain_block_1, chain_block_2]"
  "hash_index example_chain ''a1#'' = Some chain_block_0"
  "hash_index example_chain ''a1#a1#a1#'' = Some chain_block_2"
  "xlsp example_chain = fixed_codec"
  "snd (add_blocks example_hash (new_XenoChain fixed_codec) ''a1'' example_calls) = None"
  by (simp_all add: example_chain_def example_calls_def add_block_def example_profile Let_def
        new_BlockRecord_def new_XenoChain_def example_hash_def fixed_codec_def
        chain_block_0_def chain_block_1_def chain_block_2_def)

lemma chain_block_fields:
  "timestamp chain_block_0 = Fin 10" "timestamp chain_block_1 = Fin 20"
  "timestamp chain_block_2 = Fin 30"
  "hash chain_block_0 = ''a1#''" "agent_id chain_block_0 = ''a1''"
  "hash chain_block_1 = ''a1#a1#''" "prev_hash chain_block_1 = Some ''a1#''"
  "hash chain_block_2 = ''a1#a1#a1#''" "prev_hash chain_block_2 = Some ''a1#a1#''"
  "agent_id chain_block_2 = ''a1''" "prev_hash chain_block_0 = None"
  by (simp_all add: chain_block_0_def chain_block_1_def chain_block_2_def
        new_BlockRecord_def example_hash_def)

theorem add_blocks_chain_witness:
  "agent_blocks (new_XenoChain fixed_codec) ''a1'' = []
   \<and> map fst example_calls
       = [example_snapshot (Fin (1 / 2)), example_snapshot (Fin (1 / 2)),
          example_snapshot (Fin (1 / 2))]
   \<and> convert_state_to_profile ''a1'' (example_snapshot (Fin (1 / 2)))
       = Inr \<lparr>p_id = ''a1'', Wealth = 350, Hunger = 50, Status = 50, relationships = None\<rparr>
   \<and> snd (add_blocks example_hash (new_XenoChain fixed_codec) ''a1'' example_calls) = None
   \<and> length (agent_blocks example_chain ''a1'') = 3
   \<and> prev_hash (agent_blocks example_chain ''a1'' ! 0) = None
   \<and> prev_hash (agent_blocks example_chain ''a1'' ! 1)
       = Some (hash (agent_blocks example_chain ''a1'' ! 0))
   \<and> prev_hash (agent_blocks example_chain ''a1'' ! 2)
       = Some (hash (agent_blocks example_chain ''a1'' ! 1))"
proof -
  have e: "agent_blocks (new_XenoChain fixed_codec) ''a1'' = []"
    by (simp add: new_XenoChain_def)
  have ok: "\<forall>call \<in> set example_calls.
      \<exists>p. convert_state_to_profile ''a1'' (fst call) = Inr p"
    by (simp add: example_calls_def example_profile)
  have n: "length example_calls = 3" by (simp add: example_calls_def)
  let ?bs = "agent_blocks example_chain ''a1''"
  from add_blocks_chain [OF e, of example_hash example_calls]
  have first: "?bs \<noteq> [] \<longrightarrow> prev_hash (?bs ! 0) = None"
    and link: "\<forall>i. 1 \<le> i \<and> i < length ?bs \<longrightarrow>
                 prev_hash (?bs ! i) = Some (hash (?bs ! (i - 1)))"
    and len: "snd (add_blocks example_hash (new_XenoChain fixed_codec) ''a1'' example_calls)
                = None \<longrightarrow> length ?bs = length example_calls"
    and run: "(\<forall>call \<in> set example_calls.
                 \<exists>p. convert_state_to_profile ''a1'' (fst call) = Inr p) \<longrightarrow>
              snd (add_blocks example_hash (new_XenoChain fixed_codec) ''a1'' example_calls)
                = None"
    unfolding example_chain_def by blast+
  from run ok
  have r: "snd (add_blocks example_hash (new_XenoChain fixed_codec) ''a1'' example_calls)
             = None"
    by blast
  with len n have l3: "length ?bs = 3" by simp
  then have "?bs \<noteq> []" by auto
  with first have p0: "prev_hash (?bs ! 0) = None" by blast
  from link l3 have p1: "prev_hash (?bs ! 1) = Some (hash (?bs ! (1 - 1)))" by simp
  from link l3 have p2: "prev_hash (?bs ! 2) = Some (hash (?bs ! (2 - 1)))" by simp
  have calls: "map fst example_calls
       = [example_snapshot (Fin (1 / 2)), example_snapshot (Fin (1 / 2)),
          example_snapshot (Fin (1 / 2))]"
    by (simp add: example_calls_def)
  from e calls example_profile r l3 p0 p1 p2 show ?thesis by simp
qed

section \<open>Properties of the state and profile conversions\<close>

lemma fmul_special: "fmul NaN d = NaN" "fmul PInf d = PInf" "fmul NInf d = NInf"
  by simp_all

text \<open>
  Claim C6, as stated, fails: the code converts with \<^verbatim>\<open>int()\<close>, which truncates, not
  with rounding. For the accuracy \<open>23/32 = 0.71875\<close> the float product with 100 is
  exactly \<open>71.875\<close>: the status is 71 and the hunger 29, while rounding gives 72 and a
  hunger of 28. For an accuracy that is not a number no profile is built at all.
\<close>

theorem convert_state_to_profile_round_counterexample:
  "convert_state_to_profile ''a1'' (example_snapshot (Fin (23 / 32)))
     = Inr \<lparr>p_id = ''a1'', Wealth = 350, Hunger = 29, Status = 71, relationships = None\<rparr>
   \<and> round (23 / 32 * 100 :: real) = 72
   \<and> max 0 (100 - round (23 / 32 * 100 :: real)) = 28
   \<and> convert_state_to_profile ''a1'' (example_snapshot NaN) = Inl ValueError"
  by (simp add: convert_state_to_profile_def example_snapshot_def fmul_examples fmul_special
        round_def Let_def del: fmul.simps(1))

text \<open>
  Claim C6, amended. For every snapshot whose float product \<open>accuracy * 100\<close> is
  finite, the profile has \<open>wealth = skillCount * 100 + learningIterations * 50\<close>,
  \<open>status\<close> the truncation towards zero of that product, and
  \<open>hunger = max 0 (100 - status)\<close>; the relationships are copied from the snapshot's
  \<^verbatim>\<open>dependencies\<close> and \<^verbatim>\<open>related_agents\<close> keys when at least one is present; the defaults
  are accuracy 0.5, no learning iterations and no skills. When the product is infinite
  or not a number, the conversion raises and no profile is built.
\<close>

theorem convert_state_to_profile_truncates:
  "(\<forall>y. fmul (case s_average_accuracy s of None \<Rightarrow> Fin (1 / 2) | Some acc \<Rightarrow> acc) 100 = Fin y
        \<longrightarrow> convert_state_to_profile a s = Inr
              \<lparr>p_id = a,
               Wealth = int (length (case s_skills s of None \<Rightarrow> [] | Some xs \<Rightarrow> xs)) * 100
                        + (case s_learning_iterations s of None \<Rightarrow> 0 | Some k \<Rightarrow> k) * 50,
               Hunger = max 0 (100 - (if 0 \<le> y then \<lfloor>y\<rfloor> else \<lceil>y\<rceil>)),
               Status = (if 0 \<le> y then \<lfloor>y\<rfloor> else \<lceil>y\<rceil>),
               relationships =
                 (if s_dependencies s = None \<and> s_related_agents s = None then None
                  else Some \<lparr>rel_dependencies = s_dependencies s,
                             rel_agents = s_related_agents s\<rparr>)\<rparr>)
   \<and> (fmul (case s_average_accuracy s of None \<Rightarrow> Fin (1 / 2) | Some acc \<Rightarrow> acc) 100
         \<in> {PInf, NInf}
        \<longrightarrow> convert_state_to_profile a s = Inl OverflowError)
   \<and> (fmul (case s_average_accuracy s of None \<Rightarrow> Fin (1 / 2) | Some acc \<Rightarrow> acc) 100 = NaN
        \<longrightarrow> convert_state_to_profile a s = Inl ValueError)"
  by (auto simp add: convert_state_to_profile_def Let_def simp del: fmul.simps(1))

text \<open>The example of the specification: two skills, accuracy 0.8 (the nearest float),
  three learning iterations.\<close>

theorem convert_state_to_profile_truncates_witness:
  "fmul double_0_8 100 = Fin 80
   \<and> convert_state_to_profile ''a1'' (example_snapshot double_0_8)
       = Inr \<lparr>p_id = ''a1'', Wealth = 350, Hunger = 20, Status = 80, relationships = None\<rparr>
   \<and> fmul NaN 100 = NaN
   \<and> convert_state_to_profile ''a1'' (example_snapshot NaN) = Inl ValueError
   \<and> fmul PInf 100 \<in> {PInf, NInf}
   \<and> convert_state_to_profile ''a1'' (example_snapshot PInf) = Inl OverflowError"
proof -
  have m: "fmul double_0_8 100 = Fin 80" by (rule fmul_examples)
  have n: "fmul NaN 100 = NaN" and i: "fmul PInf 100 \<in> {PInf, NInf}" by simp_all
  from convert_state_to_profile_truncates [of "example_snapshot double_0_8" "''a1''"]
       convert_state_to_profile_truncates [of "example_snapshot NaN" "''a1''"]
       convert_state_to_profile_truncates [of "example_snapshot PInf" "''a1''"]
       m n i
  show ?thesis by (simp add: example_snapshot_def fmul_special del: fmul.simps(1))
qed

text \<open>The float nearest to \<open>0.3\<close>: the exact product with 100 lies just above 30, and
  it rounds to 30.\<close>

lemma double_0_3_status:
  "convert_state_to_profile ''a1''
     (example_snapshot (Fin (5404319552844595 / 18014398509481984)))
     = Inr \<lparr>p_id = ''a1'', Wealth = 350, Hunger = 70, Status = 30, relationships = None\<rparr>"
  by (simp add: convert_state_to_profile_def example_snapshot_def fmul_examples Let_def
        del: fmul.simps(1))

text \<open>Under \<open>max 1\<close> and \<open>max 0\<close>, truncation towards zero and the floor agree: they
  differ only on negative arguments, where both maxima take the bound.\<close>

lemma max_1_trunc: "max 1 (if 0 \<le> x then \<lfloor>x\<rfloor> else \<lceil>x::real\<rceil>) = max 1 \<lfloor>x\<rfloor>"
  by (auto simp: max_def)

lemma max_0_trunc: "max 0 (if 0 \<le> x then \<lfloor>x\<rfloor> else \<lceil>x::real\<rceil>) = max 0 \<lfloor>x\<rfloor>"
  by (auto simp: max_def) linarith+

text \<open>\<^verbatim>\<open>get_state\<close> on the block it selects: the agent's latest block, or the block
  indexed under the given hash when it belongs to the agent.\<close>

lemma get_state_selected:
  assumes "(\<not> truthy bh \<and> agent_blocks c a \<noteq> [] \<and> b = last (agent_blocks c a))
         \<or> (\<exists>h. bh = Some h \<and> h \<noteq> [] \<and> hash_index c h = Some b \<and> agent_id b = a)"
  shows "get_state now c a dt bh
           = convert_ranges_to_state now a (decode (xlsp c) (scan b) dt) (Some b)"
  using assms by (auto simp add: get_state_def Let_def)

text \<open>
  Claim C7, as stated, fails: a mapping with the three intervals need not give a state.
  With both Wealth bounds at the float \<open>2\<^sup>1\<^sup>0\<^sup>2\<^sup>3\<close> the sum overflows, the midpoint is
  infinite, and \<^verbatim>\<open>int()\<close> raises \<^verbatim>\<open>OverflowError\<close>.
\<close>

theorem convert_ranges_to_state_overflow_counterexample:
  "map_of overflow_ranges ''Wealth'' = Some (float_2_1023, float_2_1023)
   \<and> map_of overflow_ranges ''Hunger'' = Some (Fin 10, Fin 30)
   \<and> map_of overflow_ranges ''Status'' = Some (Fin 70, Fin 90)
   \<and> fdiv (fadd float_2_1023 float_2_1023) 2 = PInf
   \<and> convert_ranges_to_state (Fin 0) ''a1'' overflow_ranges None = Inl OverflowError"
  by (simp add: overflow_ranges_def convert_ranges_to_state_def lookup_range_def
        midpoint_examples Let_def del: fadd.simps(1) fdiv.simps(1))

text \<open>
  Claim C7, amended. All arithmetic is float arithmetic, each sum, difference and
  quotient rounded. For every range mapping that has the three intervals and for which
  the Wealth midpoint \<open>w\<close>, its quotient \<open>q\<close> by 100, the float \<open>c\<close> of
  \<open>skillCount * 100\<close> and the quotient \<open>v\<close> of \<open>w - c\<close> by 50 are finite,
  \<^verbatim>\<open>_convert_ranges_to_state\<close> returns a state with \<open>skillCount = max 1 (floor q)\<close>,
  \<open>accuracy = statusMid / 100\<close>, \<open>learningIterations = max 0 (floor v)\<close> and
  \<open>needsTraining = (hungerMid > 50)\<close>, each \<open>Mid\<close> the float midpoint of its interval;
  and \<^verbatim>\<open>get_state\<close> returns that state when the mapping is the decoding of the block
  it selects. When the Wealth midpoint is infinite or not a number, \<^verbatim>\<open>int()\<close> raises and
  no state is returned.
\<close>

theorem convert_ranges_to_state_formula:
  assumes "map_of rs ''Wealth'' = Some (wl, wh)"
    and "map_of rs ''Hunger'' = Some (hl, hh)"
    and "map_of rs ''Status'' = Some (sl, sh)"
  shows "(\<forall>w q c v.
            fdiv (fadd wl wh) 2 = Fin w \<and> fdiv (Fin w) 100 = Fin q
            \<and> float_of_int (max 1 \<lfloor>q\<rfloor> * 100) = Inr c
            \<and> fdiv (fsub (Fin w) c) 50 = Fin v
          \<longrightarrow> (\<exists>st. convert_ranges_to_state now a rs blk = Inr (Some st)
                 \<and> int (length (r_skills st)) = max 1 \<lfloor>q\<rfloor>
                 \<and> r_average_accuracy st = fdiv (fdiv (fadd sl sh) 2) 100
                 \<and> r_learning_iterations st = max 0 \<lfloor>v\<rfloor>
                 \<and> r_needs_training st = flt (Fin 50) (fdiv (fadd hl hh) 2)
                 \<and> (\<forall>c dt bh b.
                       ((\<not> truthy bh \<and> agent_blocks c a \<noteq> []
                           \<and> b = last (agent_blocks c a))
                        \<or> (\<exists>h. bh = Some h \<and> h \<noteq> [] \<and> hash_index c h = Some b
                               \<and> agent_id b = a))
                       \<and> blk = Some b \<and> decode (xlsp c) (scan b) dt = rs
                     \<longrightarrow> get_state now c a dt bh = Inr (Some st))))
     \<and> (fdiv (fadd wl wh) 2 \<in> {PInf, NInf}
          \<longrightarrow> convert_ranges_to_state now a rs blk = Inl OverflowError)
     \<and> (fdiv (fadd wl wh) 2 = NaN
          \<longrightarrow> convert_ranges_to_state now a rs blk = Inl ValueError)"
proof (intro conjI allI impI)
  from assms(1) have ne: "rs \<noteq> []" by auto
  {
    fix w q c v
    assume fin: "fdiv (fadd wl wh) 2 = Fin w \<and> fdiv (Fin w) 100 = Fin q
            \<and> float_of_int (max 1 \<lfloor>q\<rfloor> * 100) = Inr c
            \<and> fdiv (fsub (Fin w) c) 50 = Fin v"
    let ?st = "\<lparr>r_agent_id = a,
        r_skills = map (\<lambda>i. ''skill_'' @ string_of_nat i) [0 ..< nat (max 1 \<lfloor>q\<rfloor>)],
        r_average_accuracy = fdiv (fdiv (fadd sl sh) 2) 100,
        r_learning_iterations = max 0 \<lfloor>v\<rfloor>,
        r_needs_training = flt (Fin 50) (fdiv (fadd hl hh) 2),
        r_timestamp = (case blk of None \<Rightarrow> now | Some b \<Rightarrow> timestamp b),
        r_dependencies =
          (case blk of None \<Rightarrow> None
           | Some b \<Rightarrow> if dependencies b \<noteq> [] then Some (dependencies b) else None)\<rparr>"
    have eq: "convert_ranges_to_state now a rs blk = Inr (Some ?st)"
      using assms ne fin
      by (simp add: convert_ranges_to_state_def lookup_range_def Let_def
            max_1_trunc max_0_trunc del: fadd.simps(1) fdiv.simps(1))
    have len: "int (length (r_skills ?st)) = max 1 \<lfloor>q\<rfloor>" by simp
    have gs: "get_state now c' a dt bh = Inr (Some ?st)"
      if "(\<not> truthy bh \<and> agent_blocks c' a \<noteq> [] \<and> b = last (agent_blocks c' a))
              \<or> (\<exists>h. bh = Some h \<and> h \<noteq> [] \<and> hash_index c' h = Some b \<and> agent_id b = a)"
         "blk = Some b" "decode (xlsp c') (scan b) dt = rs" for c' dt bh b
      using get_state_selected [OF that(1), of now dt] that(2,3) eq by simp
    show "\<exists>st. convert_ranges_to_state now a rs blk = Inr (Some st)
                 \<and> int (length (r_skills st)) = max 1 \<lfloor>q\<rfloor>
                 \<and> r_average_accuracy st = fdiv (fdiv (fadd sl sh) 2) 100
                 \<and> r_learning_iterations st = max 0 \<lfloor>v\<rfloor>
                 \<and> r_needs_training st = flt (Fin 50) (fdiv (fadd hl hh) 2)
                 \<and> (\<forall>c dt bh b.
                       ((\<not> truthy bh \<and> agent_blocks c a \<noteq> []
                           \<and> b = last (agent_blocks c a))
                        \<or> (\<exists>h. bh = Some h \<and> h \<noteq> [] \<and> hash_index c h = Some b
                               \<and> agent_id b = a))
                       \<and> blk = Some b \<and> decode (xlsp c) (scan b) dt = rs
                     \<longrightarrow> get_state now c a dt bh = Inr (Some st))"
      apply (rule exI [of _ ?st])
      using eq len gs by simp
  }
  {
    assume "fdiv (fadd wl wh) 2 \<in> {PInf, NInf}"
    then show "convert_ranges_to_state now a rs blk = Inl OverflowError"
      using assms ne
      by (auto simp add: convert_ranges_to_state_def lookup_range_def Let_def
            simp del: fadd.simps(1) fdiv.simps(1))
  }
  {
    assume "fdiv (fadd wl wh) 2 = NaN"
    then show "convert_ranges_to_state now a rs blk = Inl ValueError"
      using assms ne
      by (simp add: convert_ranges_to_state_def lookup_range_def Let_def
            del: fadd.simps(1) fdiv.simps(1))
  }
qed

text \<open>Rounding of a midpoint: the Hunger bounds \<open>50 + 2\<^sup>-\<^sup>4\<^sup>7\<close> and \<open>50\<close> have the float sum
  100, so that the midpoint is 50 and not above it.\<close>

lemma needs_training_rounding:
  "fdiv (fadd (Fin (50 + 1 / 2 ^ 47)) (Fin 50)) 2 = Fin 50"
  by (simp add: round64_normal [where e = 6] round64_normal [where e = 5] round64_eval)

theorem convert_ranges_to_state_formula_witness:
  "map_of example_ranges ''Wealth'' = Some (Fin 340, Fin 360)
   \<and> map_of example_ranges ''Hunger'' = Some (Fin 10, Fin 30)
   \<and> map_of example_ranges ''Status'' = Some (Fin 70, Fin 90)
   \<and> fdiv (fadd (Fin 340) (Fin 360)) 2 = Fin 350
   \<and> fdiv (Fin 350) 100 = Fin (7 / 2)
   \<and> float_of_int (max 1 \<lfloor>7 / 2 :: real\<rfloor> * 100) = Inr (Fin 300)
   \<and> fdiv (fsub (Fin 350) (Fin 300)) 50 = Fin 1
   \<and> agent_blocks example_chain ''a1'' \<noteq> []
   \<and> chain_block_2 = last (agent_blocks example_chain ''a1'')
   \<and> decode (xlsp example_chain) (scan chain_block_2) (Fin 1) = example_ranges
   \<and> fdiv (fadd (Fin 340) (Fin 360)) 2 \<notin> {PInf, NInf}
   \<and> fdiv (fadd (Fin 340) (Fin 360)) 2 \<noteq> NaN
   \<and> (\<exists>st. convert_ranges_to_state (Fin 0) ''a1'' example_ranges (Some chain_block_2)
               = Inr (Some st)
         \<and> int (length (r_skills st)) = 3 \<and> r_average_accuracy st = double_0_8
         \<and> r_learning_iterations st = 1 \<and> \<not> r_needs_training st
         \<and> get_state (Fin 0) example_chain ''a1'' (Fin 1) None = Inr (Some st)
         \<and> get_state (Fin 0) example_chain ''a1'' (Fin 1) (Some ''a1#a1#a1#'')
             = Inr (Some st))"
proof -
  have w: "map_of example_ranges ''Wealth'' = Some (Fin 340, Fin 360)"
    and h: "map_of example_ranges ''Hunger'' = Some (Fin 10, Fin 30)"
    and s: "map_of example_ranges ''Status'' = Some (Fin 70, Fin 90)"
    by (simp_all add: example_ranges_def)
  have m: "fdiv (fadd (Fin 340) (Fin 360)) 2 = Fin 350" by (rule midpoint_examples)
  have q: "fdiv (Fin 350) 100 = Fin (7 / 2)" by (rule state_examples)
  have c: "float_of_int (max 1 \<lfloor>7 / 2 :: real\<rfloor> * 100) = Inr (Fin 300)"
    by (simp add: state_examples)
  have v: "fdiv (fsub (Fin 350) (Fin 300)) 50 = Fin 1" by (rule state_examples)
  have ne: "agent_blocks example_chain ''a1'' \<noteq> []"
    and la: "chain_block_2 = last (agent_blocks example_chain ''a1'')"
    by (simp_all add: example_chain_blocks)
  have d: "decode (xlsp example_chain) (scan chain_block_2) (Fin 1) = example_ranges"
    by (simp add: example_chain_blocks fixed_codec_def)
  from convert_ranges_to_state_formula [OF w h s, of "Fin 0" "''a1''" "Some chain_block_2"]
       m q c v
  obtain st where st:
    "convert_ranges_to_state (Fin 0) ''a1'' example_ranges (Some chain_block_2) = Inr (Some st)"
    "int (length (r_skills st)) = max 1 \<lfloor>7 / 2 :: real\<rfloor>"
    "r_average_accuracy st = fdiv (fdiv (fadd (Fin 70) (Fin 90)) 2) 100"
    "r_learning_iterations st = max 0 \<lfloor>1 :: real\<rfloor>"
    "r_needs_training st = flt (Fin 50) (fdiv (fadd (Fin 10) (Fin 30)) 2)"
    "\<forall>c dt bh b.
        ((\<not> truthy bh \<and> agent_blocks c ''a1'' \<noteq> [] \<and> b = last (agent_blocks c ''a1''))
         \<or> (\<exists>h. bh = Some h \<and> h \<noteq> [] \<and> hash_index c h = Some b \<and> agent_id b = ''a1''))
        \<and> Some chain_block_2 = Some b \<and> decode (xlsp c) (scan b) dt = example_ranges
      \<longrightarrow> get_state (Fin 0) c ''a1'' dt bh = Inr (Some st)"
    by blast
  from st(6) ne la d
  have g: "get_state (Fin 0) example_chain ''a1'' (Fin 1) None = Inr (Some st)"
    by simp
  have "hash_index example_chain ''a1#a1#a1#'' = Some chain_block_2"
    "agent_id chain_block_2 = ''a1''"
    by (simp_all add: example_chain_blocks chain_block_fields)
  with st(6) d
  have g': "get_state (Fin 0) example_chain ''a1'' (Fin 1) (Some ''a1#a1#a1#'')
              = Inr (Some st)"
    by simp
  from st(2) have "int (length (r_skills st)) = 3" by simp
  moreover from st(3) have "r_average_accuracy st = double_0_8"
    by (simp add: midpoint_examples state_examples del: fadd.simps(1) fdiv.simps(1))
  moreover from st(4) have "r_learning_iterations st = 1" by simp
  moreover from st(5) have "\<not> r_needs_training st"
    by (simp add: midpoint_examples del: fadd.simps(1) fdiv.simps(1))
  moreover have "fdiv (fadd (Fin 340) (Fin 360)) 2 \<notin> {PInf, NInf}"
    "fdiv (fadd (Fin 340) (Fin 360)) 2 \<noteq> NaN"
    by (simp_all add: m del: fadd.simps(1) fdiv.simps(1))
  ultimately show ?thesis using w h s m q c v ne la d st(1) g g' by blast
qed

text \<open>The reconstructed state of the example ledger's latest block, computed.\<close>

lemma example_chain_state:
  "get_state (Fin 0) example_chain ''a1'' (Fin 1) None = Inr (Some
     \<lparr>r_agent_id = ''a1'', r_skills = [''skill_0'', ''skill_1'', ''skill_2''],
      r_average_accuracy = double_0_8, r_learning_iterations = 1, r_needs_training = False,
      r_timestamp = Fin 30, r_dependencies = Some [''a1#'']\<rparr>)"
  by (simp add: get_state_def example_chain_blocks chain_block_2_def new_BlockRecord_def
        fixed_codec_def example_ranges_def convert_ranges_to_state_def lookup_range_def
        midpoint_examples state_examples Let_def upt_conv_Cons
        del: fadd.simps(1) fdiv.simps(1))

section \<open>Properties of the queries\<close>





text \<open>A tie, computed: the example ledger has blocks at 10, 20 and 30; the query time
  15 is as far from 10 as from 20, and the block at 10, the earlier in sequence, is
  the one reconstructed.\<close>

lemma example_chain_tie:
  "get_agent_at_time (Fin 0) example_chain ''a1'' (Fin 15) (Fin 1) = Inr (Some
     \<lparr>r_agent_id = ''a1'', r_skills = [''skill_0'', ''skill_1'', ''skill_2''],
      r_average_accuracy = double_0_8, r_learning_iterations = 1, r_needs_training = False,
      r_timestamp = Fin 10, r_dependencies = None\<rparr>)"
  by (simp add: get_agent_at_time_def example_chain_blocks time_distance_def
        chain_block_0_def chain_block_1_def chain_block_2_def new_BlockRecord_def
        distance_examples fixed_codec_def example_ranges_def
        convert_ranges_to_state_def lookup_range_def
        midpoint_examples state_examples Let_def upt_conv_Cons
        del: fadd.simps(1) fdiv.simps(1))

text \<open>A tie made by rounding: seen from \<open>10\<^sup>1\<^sup>7\<close>, the blocks at \<open>-1\<close> and \<open>1\<close> have the
  same float distance \<open>10\<^sup>1\<^sup>7\<close>, and the first is the one reconstructed.\<close>

lemma rounding_chain_tie:
  "map timestamp (agent_blocks rounding_chain ''a1'') = [Fin (- 1), Fin 1]"
  "map (time_distance far_time) (agent_blocks rounding_chain ''a1'') = [far_time, far_time]"
  "\<not> flt far_time far_time"
  "map_option r_timestamp
     (projr (get_agent_at_time (Fin 0) rounding_chain ''a1'' far_time (Fin 1)))
     = Some (Fin (- 1))"
  by (simp_all add: flt_irrefl rounding_chain_def add_block_def example_profile Let_def
        new_BlockRecord_def new_XenoChain_def get_agent_at_time_def time_distance_def
        distance_examples fixed_codec_def example_ranges_def
        convert_ranges_to_state_def lookup_range_def
        midpoint_examples state_examples
        del: fadd.simps(1) fdiv.simps(1))

text \<open>
  Claim C10. Whenever the block that \<^verbatim>\<open>get_state\<close> selects (the agent's latest block,
  or the block indexed under the given hash and owned by the agent) has a scan that
  decodes to the empty mapping, \<^verbatim>\<open>get_state\<close> returns not-found, although the agent has
  a matching block.
\<close>

theorem get_state_empty_ranges:
  assumes "decode (xlsp c) (scan b) dt = []"
    and "(\<not> truthy bh \<and> agent_blocks c a \<noteq> [] \<and> b = last (agent_blocks c a))
         \<or> (\<exists>h. bh = Some h \<and> h \<noteq> [] \<and> hash_index c h = Some b \<and> agent_id b = a)"
  shows "get_state now c a dt bh = Inr None"
  using get_state_selected [OF assms(2), of now dt] assms(1)
  by (simp add: convert_ranges_to_state_def)

theorem get_state_empty_ranges_witness:
  "agent_blocks empty_codec_chain ''a1'' \<noteq> []
   \<and> decode (xlsp empty_codec_chain) (scan (last (agent_blocks empty_codec_chain ''a1'')))
        (Fin 1) = []
   \<and> get_state (Fin 0) empty_codec_chain ''a1'' (Fin 1) None = Inr None
   \<and> hash_index empty_codec_chain ''a1#'' = Some (last (agent_blocks empty_codec_chain ''a1''))
   \<and> agent_id (last (agent_blocks empty_codec_chain ''a1'')) = ''a1''
   \<and> get_state (Fin 0) empty_codec_chain ''a1'' (Fin 1) (Some ''a1#'') = Inr None"
proof -
  let ?b = "last (agent_blocks empty_codec_chain ''a1'')"
  have ne: "agent_blocks empty_codec_chain ''a1'' \<noteq> []"
    by (simp add: empty_codec_chain_def add_block_def example_profile Let_def)
  have d: "decode (xlsp empty_codec_chain) (scan ?b) (Fin 1) = []"
    by (simp add: empty_codec_chain_def add_block_def example_profile Let_def
          new_XenoChain_def empty_codec_def)
  have idx: "hash_index empty_codec_chain ''a1#'' = Some ?b"
    by (simp add: empty_codec_chain_def add_block_def example_profile Let_def
          new_BlockRecord_def new_XenoChain_def example_hash_def)
  have ag: "agent_id ?b = ''a1''"
    by (simp add: empty_codec_chain_def add_block_def example_profile Let_def
          new_BlockRecord_def)
  have latest: "(\<not> truthy None \<and> agent_blocks empty_codec_chain ''a1'' \<noteq> [] \<and> ?b = ?b)
     \<or> (\<exists>h. None = Some h \<and> h \<noteq> [] \<and> hash_index empty_codec_chain h = Some ?b
            \<and> agent_id ?b = ''a1'')"
    using ne by simp
  have by_hash: "(\<not> truthy (Some ''a1#'') \<and> agent_blocks empty_codec_chain ''a1'' \<noteq> []
        \<and> ?b = ?b)
     \<or> (\<exists>h. Some ''a1#'' = Some h \<and> h \<noteq> [] \<and> hash_index empty_codec_chain h = Some ?b
            \<and> agent_id ?b = ''a1'')"
    using idx ag by simp
  from get_state_empty_ranges [OF d latest, of "Fin 0"]
       get_state_empty_ranges [OF d by_hash, of "Fin 0"] ne d idx ag
  show ?thesis by simp
qed

end
